theory Spec2Isabelle
  imports
    Complex_Main
    "HOL-Library.Sublist"
    "HOL-Library.List_Lexorder"
    "HOL-Library.Char_ord"
begin

section \<open>The agent-service client (src/client/client.py)\<close>

text \<open>
  A shallow embedding of \<^verbatim>\<open>AgentClient\<close>: the session fields as a record, the
  methods as functions that take the session and return the exception raised (if any)
  with the session as the method leaves it. What the network answers is a parameter of
  each method; so is the JSON decoder of the standard library. The line numbers are
  those of the source file.

  A Python \<^verbatim>\<open>str\<close> is a \<^typ>\<open>string\<close>, read as the list of its code points, and the
  model covers the code points below 256. Logging is not modelled: no method reads
  the log back.
\<close>

subsection \<open>Strings\<close>

text \<open>\<^verbatim>\<open>str.isspace\<close> on the code points below 256.\<close>

definition isspace :: "char \<Rightarrow> bool" where
  "isspace c = (of_char c \<in> set [9, 10, 11, 12, 13, 28, 29, 30, 31, 32, 133, 160 :: nat])"

text \<open>\<^verbatim>\<open>str.strip()\<close>: whitespace removed at both ends.\<close>

definition strip :: "string \<Rightarrow> string" where
  "strip s = rev (dropWhile isspace (rev (dropWhile isspace s)))"

text \<open>\<^verbatim>\<open>s.startswith(p)\<close>.\<close>

definition startswith :: "string \<Rightarrow> string \<Rightarrow> bool" where
  "startswith s p = (take (length p) s = p)"

text \<open>\<^verbatim>\<open>sep.join(xs)\<close>.\<close>

fun join :: "string \<Rightarrow> string list \<Rightarrow> string" where
  "join sep [] = []"
| "join sep [x] = x"
| "join sep (x # y # ys) = x @ sep @ join sep (y # ys)"

text \<open>\<^verbatim>\<open>str(n)\<close> for a natural number: its decimal digits.\<close>

definition digit_char :: "nat \<Rightarrow> char" where
  "digit_char d = char_of (48 + d)"

fun show_nat :: "nat \<Rightarrow> string" where
  "show_nat n = (if n < 10 then [digit_char n] else show_nat (n div 10) @ [digit_char (n mod 10)])"

declare show_nat.simps [simp del]

subsection \<open>JSON values and exceptions\<close>

text \<open>
  What \<^verbatim>\<open>json.loads\<close> returns. A \<^verbatim>\<open>dict\<close> is the list of its items in insertion
  order; a \<^verbatim>\<open>float\<close> is kept as the text of its literal.
\<close>

datatype json =
    JNull
  | JBool bool
  | JInt int
  | JFloat string
  | JString string
  | JArray "json list"
  | JObject "(string \<times> json) list"

text \<open>\<^verbatim>\<open>d.get(k)\<close> on the items of a dict: \<open>None\<close> when the key is absent.\<close>

definition dict_get :: "(string \<times> json) list \<Rightarrow> string \<Rightarrow> json option" where
  "dict_get d k = map_of d k"

text \<open>\<^verbatim>\<open>isinstance(v, dict)\<close>.\<close>

fun is_dict :: "json \<Rightarrow> bool" where
  "is_dict (JObject _) = True"
| "is_dict _ = False"

text \<open>\<^verbatim>\<open>type(v).__name__\<close> of a decoded value.\<close>

fun type_name :: "json \<Rightarrow> string" where
  "type_name JNull = ''NoneType''"
| "type_name (JBool _) = ''bool''"
| "type_name (JInt _) = ''int''"
| "type_name (JFloat _) = ''float''"
| "type_name (JString _) = ''str''"
| "type_name (JArray _) = ''list''"
| "type_name (JObject _) = ''dict''"

text \<open>
  The exceptions the client meets, all subclasses of \<^verbatim>\<open>Exception\<close>.
  \<open>JSONDecodeError msg doc pos\<close> is raised by the decoder; \<open>ConnectError\<close> and
  \<open>HTTPError\<close> are \<^verbatim>\<open>httpx.ConnectError\<close> and the other subclasses of
  \<^verbatim>\<open>httpx.HTTPError\<close> (a status error among them), carrying \<^verbatim>\<open>str(e)\<close>;
  \<open>AgentClientError\<close> is the client's own; \<open>OtherException\<close> is any other exception,
  carrying \<^verbatim>\<open>str(e)\<close>.
\<close>

datatype py_exception =
    JSONDecodeError string string nat
  | AttributeError string
  | KeyError string
  | ConnectError string
  | HTTPError string
  | AgentClientError string
  | OtherException string

fun is_JSONDecodeError :: "py_exception \<Rightarrow> bool" where
  "is_JSONDecodeError (JSONDecodeError _ _ _) = True"
| "is_JSONDecodeError _ = False"

text \<open>\<^verbatim>\<open>isinstance(e, httpx.HTTPError)\<close>: \<^verbatim>\<open>ConnectError\<close> is a subclass.\<close>

fun is_HTTPError :: "py_exception \<Rightarrow> bool" where
  "is_HTTPError (ConnectError _) = True"
| "is_HTTPError (HTTPError _) = True"
| "is_HTTPError _ = False"

fun is_ConnectError :: "py_exception \<Rightarrow> bool" where
  "is_ConnectError (ConnectError _) = True"
| "is_ConnectError _ = False"

text \<open>
  The line and column \<^verbatim>\<open>JSONDecodeError.__init__\<close> computes from the document and the
  position: the line is one more than the newlines before \<open>pos\<close>, the column counts from
  the last of them.
\<close>

definition lineno :: "string \<Rightarrow> nat \<Rightarrow> nat" where
  "lineno doc pos = length (filter (\<lambda>c. c = CHR 0x0A) (take pos doc)) + 1"

definition colno :: "string \<Rightarrow> nat \<Rightarrow> nat" where
  "colno doc pos = length (takeWhile (\<lambda>c. c \<noteq> CHR 0x0A) (rev (take pos doc))) + 1"

text \<open>\<^verbatim>\<open>repr(s)\<close> of a string of plain characters: the string in single quotes.\<close>

definition quoted :: "string \<Rightarrow> string" where
  "quoted s = [CHR 0x27] @ s @ [CHR 0x27]"

text \<open>The message of the \<^verbatim>\<open>AttributeError\<close> that reading attribute \<open>a\<close> of a value of
  type \<open>t\<close> raises.\<close>

definition no_attribute :: "string \<Rightarrow> string \<Rightarrow> string" where
  "no_attribute t a = quoted t @ '' object has no attribute '' @ quoted a"

text \<open>\<^verbatim>\<open>str(e)\<close>. A \<^verbatim>\<open>KeyError\<close> prints the \<^verbatim>\<open>repr\<close> of its key (the keys met here are
  plain identifiers).\<close>

fun exc_str :: "py_exception \<Rightarrow> string" where
  "exc_str (JSONDecodeError msg doc pos) =
     msg @ '': line '' @ show_nat (lineno doc pos) @ '' column '' @ show_nat (colno doc pos)
       @ '' (char '' @ show_nat pos @ '')''"
| "exc_str (AttributeError m) = m"
| "exc_str (KeyError k) = quoted k"
| "exc_str (ConnectError m) = m"
| "exc_str (HTTPError m) = m"
| "exc_str (AgentClientError m) = m"
| "exc_str (OtherException m) = m"

subsection \<open>The session\<close>

text \<open>
  Modelled from the spec: \<^verbatim>\<open>ServiceMetadata\<close> comes from the module \<^verbatim>\<open>schema\<close>, which
  is not among the sources. The spec gives it the available agents, each with a key and
  display metadata, and a default agent key; the client reads \<^verbatim>\<open>info.agents\<close>, each
  agent's \<^verbatim>\<open>key\<close>, and \<^verbatim>\<open>info.default_agent\<close>.
\<close>

record agent_info =
  key :: string
  description :: string

record service_metadata =
  agents :: "agent_info list"
  default_agent :: string

text \<open>The fields \<^verbatim>\<open>__init__\<close> sets.\<close>

record agent_client =
  base_url :: string
  auth_secret :: "string option"
  timeout :: "real option"
  info :: "service_metadata option"
  agent :: "string option"

text \<open>\<^verbatim>\<open>not self.agent\<close>: the agent is \<open>None\<close> or the empty string.\<close>

definition no_agent :: "string option \<Rightarrow> bool" where
  "no_agent a = (a = None \<or> a = Some [])"

text \<open>\<^verbatim>\<open>[a.key for a in info.agents]\<close>.\<close>

definition agent_keys :: "service_metadata \<Rightarrow> string list" where
  "agent_keys md = map key (agents md)"

text \<open>
  What \<^verbatim>\<open>GET /info\<close> comes to: \<open>InfoFailed e\<close> when \<^verbatim>\<open>httpx.get\<close> or
  \<^verbatim>\<open>raise_for_status\<close> raises \<open>e\<close> (inside the \<^verbatim>\<open>try\<close>), \<open>InfoInvalid e\<close> when
  \<^verbatim>\<open>response.json()\<close> or \<^verbatim>\<open>model_validate\<close> raises \<open>e\<close> (after the \<^verbatim>\<open>try\<close>), and
  \<open>InfoOk md\<close> when the body validates as \<open>md\<close>.
\<close>

datatype info_response =
    InfoFailed py_exception
  | InfoInvalid py_exception
  | InfoOk service_metadata

text \<open>A method's outcome: the exception it raises, if any, and the session it leaves.\<close>

type_synonym outcome = "py_exception option \<times> agent_client"

text \<open>
  \<^verbatim>\<open>retrieve_info\<close> (lines 65-92). Every exception of the request becomes an
  \<^verbatim>\<open>AgentClientError\<close>; one raised by line 90 escapes as it is. On success the metadata
  is stored, and the agent falls back to the default when none is selected or the
  selected one is not listed.
\<close>

definition retrieve_info :: "info_response \<Rightarrow> agent_client \<Rightarrow> outcome" where
  "retrieve_info resp s =
     (case resp of
        InfoFailed e \<Rightarrow>
          (Some (AgentClientError
             (if is_ConnectError e then ''Error connecting to agent service: Connection refused''
              else ''Error getting service info: '' @ exc_str e)), s)
      | InfoInvalid e \<Rightarrow> (Some e, s)
      | InfoOk md \<Rightarrow>
          (None,
           s\<lparr>info := Some md,
             agent := (if no_agent (agent s) \<or> agent s \<notin> set (map Some (agent_keys md))
                       then Some (default_agent md) else agent s)\<rparr>))"

text \<open>The message of line 101.\<close>

definition unknown_agent_message :: "string \<Rightarrow> string list \<Rightarrow> string" where
  "unknown_agent_message a ks =
     ''Agent '' @ a @ '' not found in available agents: '' @ join '', '' ks"

text \<open>
  \<^verbatim>\<open>update_agent\<close> (lines 94-103). With \<open>verify\<close>, the metadata is fetched when the
  session has none, and an exception of the fetch propagates; a key that is not listed
  raises; otherwise, and without \<open>verify\<close>, the agent is set.
\<close>

definition update_agent :: "info_response \<Rightarrow> agent_client \<Rightarrow> string \<Rightarrow> bool \<Rightarrow> outcome" where
  "update_agent resp s a verify =
     (if verify then
        (case (if info s = None then retrieve_info resp s else (None, s)) of
           (Some e, s') \<Rightarrow> (Some e, s')
         | (None, s') \<Rightarrow>
             (case info s' of
                None \<Rightarrow> (Some (AttributeError (no_attribute ''NoneType'' ''agents'')), s')
              | Some md \<Rightarrow>
                  if a \<in> set (agent_keys md) then (None, s'\<lparr>agent := Some a\<rparr>)
                  else (Some (AgentClientError (unknown_agent_message a (agent_keys md))), s')))
      else (None, s\<lparr>agent := Some a\<rparr>))"

subsection \<open>Decoding one line of the stream\<close>

text \<open>A decoded event is a \<^verbatim>\<open>dict\<close> (\<^verbatim>\<open>Optional[Dict[str, Any]]\<close> is the return type of
  the line decoder).\<close>

type_synonym dict = "(string \<times> json) list"

text \<open>\<^verbatim>\<open>json.loads\<close>, a parameter of the client's functions: it returns the decoded
  value or raises.\<close>

type_synonym json_decoder = "string \<Rightarrow> py_exception + json"

text \<open>The dict \<^verbatim>\<open>{"type": "error", "content": c}\<close>.\<close>

definition error_event :: "json \<Rightarrow> dict" where
  "error_event c = [(''type'', JString ''error''), (''content'', c)]"

text \<open>Lines 176-179: the text handed to the JSON decoder.\<close>

definition stream_payload :: "string \<Rightarrow> string" where
  "stream_payload line = (if startswith line ''data: '' then drop 6 line else line)"

text \<open>
  Lines 181-191: the payload is decoded and inspected; \<open>Inl e\<close> when that raises \<open>e\<close>.
  \<^verbatim>\<open>parsed.get\<close> exists on a dict only; on any other value it raises an
  \<^verbatim>\<open>AttributeError\<close>. An error payload is rebuilt from its content, any other dict
  is returned as it is.
\<close>

definition decode_payload :: "json_decoder \<Rightarrow> string \<Rightarrow> py_exception + dict option" where
  "decode_payload loads data =
     (case loads data of
        Inl e \<Rightarrow> Inl e
      | Inr parsed \<Rightarrow>
          (case parsed of
             JObject d \<Rightarrow>
               if dict_get d ''type'' = Some (JString ''error'')
               then Inr (Some (error_event
                      (case dict_get d ''content'' of
                         Some c \<Rightarrow> c
                       | None \<Rightarrow> JString ''Unknown error'')))
               else Inr (Some d)
           | _ \<Rightarrow> Inl (AttributeError (no_attribute (type_name parsed) ''get''))))"

text \<open>The \<^verbatim>\<open>try\<close> block of \<^verbatim>\<open>_parse_stream_line\<close> (lines 173-191).\<close>

definition parse_stream_line_try :: "json_decoder \<Rightarrow> string \<Rightarrow> py_exception + dict option" where
  "parse_stream_line_try loads line =
     (if line = [] \<or> line = ''[DONE]'' then Inr None
      else decode_payload loads (stream_payload line))"

text \<open>
  \<^verbatim>\<open>_parse_stream_line\<close> (lines 170-204): the \<^verbatim>\<open>try\<close> block with its two handlers,
  \<^verbatim>\<open>except json.JSONDecodeError\<close> first and \<^verbatim>\<open>except Exception\<close> after it. \<open>Inl e\<close>
  would be an exception that leaves the function.
\<close>

definition parse_stream_line :: "json_decoder \<Rightarrow> string \<Rightarrow> py_exception + dict option" where
  "parse_stream_line loads line =
     (case parse_stream_line_try loads line of
        Inr r \<Rightarrow> Inr r
      | Inl e \<Rightarrow>
          if is_JSONDecodeError e
          then Inr (Some (error_event (JString (''Failed to parse response: '' @ exc_str e))))
          else Inr (Some (error_event (JString (''Unexpected error: '' @ exc_str e)))))"

subsection \<open>Streaming\<close>

text \<open>
  What \<^verbatim>\<open>POST .../stream\<close> comes to: \<open>StreamFailed e\<close> when opening the response or
  \<^verbatim>\<open>raise_for_status\<close> raises \<open>e\<close>, before any line; \<open>StreamBody ls t\<close> when the
  body delivers the lines \<open>ls\<close> and then closes (\<open>t = None\<close>) or raises (\<open>t = Some e\<close>).
\<close>

datatype stream_response =
    StreamFailed py_exception
  | StreamBody "string list" "py_exception option"

text \<open>A generator's run to its end: the events it yields, in order, and the exception
  that ends it, if any.\<close>

type_synonym events = "dict list \<times> py_exception option"

text \<open>How a loop over the lines ends: the lines run out, a \<^verbatim>\<open>break\<close>, or an exception.\<close>

datatype loop_end = Exhausted | Broke | Raised py_exception

text \<open>
  The loop of \<^verbatim>\<open>stream\<close> (lines 247-252) over the lines still to come: the events
  yielded and how the loop ends.
\<close>

fun stream_lines :: "json_decoder \<Rightarrow> string list \<Rightarrow> dict list \<times> loop_end" where
  "stream_lines loads [] = ([], Exhausted)"
| "stream_lines loads (line # ls) =
     (if strip line = [] then stream_lines loads ls
      else
        (case parse_stream_line loads line of
           Inl e \<Rightarrow> ([], Raised e)
         | Inr None \<Rightarrow> ([], Broke)
         | Inr (Some parsed) \<Rightarrow>
             (case stream_lines loads ls of (evs, r) \<Rightarrow> (parsed # evs, r))))"

text \<open>\<^verbatim>\<open>except httpx.HTTPError as e: raise AgentClientError(f"Error: {e}")\<close>; any other
  exception passes.\<close>

definition wrap_http_error :: "py_exception \<Rightarrow> py_exception" where
  "wrap_http_error e = (if is_HTTPError e then AgentClientError (''Error: '' @ exc_str e) else e)"

text \<open>
  \<^verbatim>\<open>stream\<close> (lines 206-254). The request (message, model, thread id) only shapes what
  is sent; what comes back is \<open>resp\<close>. After a \<^verbatim>\<open>break\<close> the body is not read further.
\<close>

definition stream :: "json_decoder \<Rightarrow> agent_client \<Rightarrow> stream_response \<Rightarrow> events" where
  "stream loads s resp =
     (if no_agent (agent s)
      then ([], Some (AgentClientError ''No agent selected. Use update_agent() to select an agent.''))
      else
        (case resp of
           StreamFailed e \<Rightarrow> ([], Some (wrap_http_error e))
         | StreamBody ls t \<Rightarrow>
             (case stream_lines loads ls of
                (evs, Exhausted) \<Rightarrow> (evs, map_option wrap_http_error t)
              | (evs, Broke) \<Rightarrow> (evs, None)
              | (evs, Raised e) \<Rightarrow> (evs, Some (wrap_http_error e)))))"

text \<open>\<^verbatim>\<open>parsed["type"]\<close> on a dict: a \<^verbatim>\<open>KeyError\<close> when the key is absent.\<close>

definition subscript :: "dict \<Rightarrow> string \<Rightarrow> py_exception + json" where
  "subscript d k = (case dict_get d k of None \<Rightarrow> Inl (KeyError k) | Some v \<Rightarrow> Inr v)"

text \<open>
  The loop of \<^verbatim>\<open>astream\<close> (lines 274-284): the events yielded, and the exception that
  leaves the loop, if any. A decoded \<open>None\<close> or empty dict is passed over
  (\<^verbatim>\<open>if parsed:\<close>); both branches on \<^verbatim>\<open>parsed["type"]\<close> yield the event.
\<close>

fun astream_lines :: "json_decoder \<Rightarrow> string list \<Rightarrow> events" where
  "astream_lines loads [] = ([], None)"
| "astream_lines loads (line # ls) =
     (if strip line = [] then astream_lines loads ls
      else
        (case parse_stream_line loads line of
           Inl e \<Rightarrow> ([], Some e)
         | Inr None \<Rightarrow> astream_lines loads ls
         | Inr (Some parsed) \<Rightarrow>
             if parsed = [] then astream_lines loads ls
             else
               (case subscript parsed ''type'' of
                  Inl e \<Rightarrow> ([], Some e)
                | Inr _ \<Rightarrow>
                    (case astream_lines loads ls of (evs, r) \<Rightarrow> (parsed # evs, r)))))"

text \<open>The two handlers of \<^verbatim>\<open>astream\<close> (lines 286-291): each yields one error event.\<close>

definition astream_error_event :: "py_exception \<Rightarrow> dict" where
  "astream_error_event e =
     (if is_HTTPError e then error_event (JString (''Connection error: '' @ exc_str e))
      else error_event (JString (''Stream error: '' @ exc_str e)))"

text \<open>
  \<^verbatim>\<open>astream\<close> (lines 256-291): every exception, of the request, of the body or of the
  loop, ends the run with one more event; none is raised.
\<close>

definition astream :: "json_decoder \<Rightarrow> agent_client \<Rightarrow> stream_response \<Rightarrow> events" where
  "astream loads s resp =
     (case resp of
        StreamFailed e \<Rightarrow> ([astream_error_event e], None)
      | StreamBody ls t \<Rightarrow>
          (case astream_lines loads ls of
             (evs, Some e) \<Rightarrow> (evs @ [astream_error_event e], None)
           | (evs, None) \<Rightarrow>
               (case t of
                  Some e \<Rightarrow> (evs @ [astream_error_event e], None)
                | None \<Rightarrow> (evs, None))))"

subsection \<open>The JSON decoder of the standard library\<close>

text \<open>
  The client's functions take the decoder as a parameter, and the theorems about them
  hold for every decoder. To evaluate them on given lines, \<open>json_loads\<close> gives the
  results of CPython's \<^verbatim>\<open>json.loads\<close> (its scanner's case order, messages and
  positions) on documents of code points below 256 whose escapes stay below 256. The
  interpreter's limits (recursion depth, digits of an integer) are not modelled.
\<close>

text \<open>The whitespace of JSON: space, tab, line feed, carriage return.\<close>

definition json_ws :: "char \<Rightarrow> bool" where
  "json_ws c = (c \<in> set [CHR 0x20, CHR 0x09, CHR 0x0A, CHR 0x0D])"

text \<open>The rest of the text after leading whitespace, with its position.\<close>

fun skip_ws :: "string \<Rightarrow> nat \<Rightarrow> string \<times> nat" where
  "skip_ws [] pos = ([], pos)"
| "skip_ws (c # cs) pos = (if json_ws c then skip_ws cs (Suc pos) else (c # cs, pos))"

text \<open>The digits \<open>0\<close> to \<open>9\<close>.\<close>

definition is_digit :: "char \<Rightarrow> bool" where
  "is_digit c = (48 \<le> (of_char c :: nat) \<and> (of_char c :: nat) \<le> 57)"

text \<open>The four hexadecimal digits of a \<^verbatim>\<open>\uXXXX\<close> escape.\<close>

definition hex_value :: "char \<Rightarrow> nat option" where
  "hex_value c =
     (let n = (of_char c :: nat) in
      if 48 \<le> n \<and> n \<le> 57 then Some (n - 48)
      else if 65 \<le> n \<and> n \<le> 70 then Some (n - 55)
      else if 97 \<le> n \<and> n \<le> 102 then Some (n - 87)
      else None)"

fun hex_number :: "nat \<Rightarrow> string \<Rightarrow> nat option" where
  "hex_number acc [] = Some acc"
| "hex_number acc (c # cs) =
     (case hex_value c of None \<Rightarrow> None | Some d \<Rightarrow> hex_number (16 * acc + d) cs)"

text \<open>The character a backslash escape other than \<^verbatim>\<open>\u\<close> stands for.\<close>

definition unescape :: "char \<Rightarrow> char option" where
  "unescape e =
     (if e = CHR 0x22 \<or> e = CHR 0x5C \<or> e = CHR ''/'' then Some e
      else if e = CHR ''b'' then Some (CHR 0x08)
      else if e = CHR ''f'' then Some (CHR 0x0C)
      else if e = CHR ''n'' then Some (CHR 0x0A)
      else if e = CHR ''r'' then Some (CHR 0x0D)
      else if e = CHR ''t'' then Some (CHR 0x09)
      else None)"

text \<open>Two messages of the string scanner; each holds a backslash.\<close>

definition invalid_escape :: string where
  "invalid_escape = ''Invalid '' @ [CHR 0x5C] @ ''escape''"

definition invalid_unicode_escape :: string where
  "invalid_unicode_escape = ''Invalid '' @ [CHR 0x5C] @ ''uXXXX escape''"

text \<open>
  The rest of a string literal after its opening quote at position \<open>b\<close>: the decoded
  string, the text after the closing quote and its position. An escape \<^verbatim>\<open>\uXXXX\<close>
  above 255 has no character in the model.
\<close>

fun scanstring :: "string \<Rightarrow> nat \<Rightarrow> string \<Rightarrow> nat \<Rightarrow> string \<Rightarrow> py_exception + (string \<times> string \<times> nat)" where
  "scanstring doc b [] pos acc = Inl (JSONDecodeError ''Unterminated string starting at'' doc b)"
| "scanstring doc b (c # cs) pos acc =
     (if c = CHR 0x22 then Inr (rev acc, cs, Suc pos)
      else if c = CHR 0x5C then
        (case cs of
           [] \<Rightarrow> Inl (JSONDecodeError ''Unterminated string starting at'' doc b)
         | e # cs' \<Rightarrow>
             if e = CHR ''u'' then
               (if length cs' < 5 then Inl (JSONDecodeError invalid_unicode_escape doc (Suc pos))
                else
                  (case hex_number 0 (take 4 cs') of
                     None \<Rightarrow> Inl (JSONDecodeError invalid_unicode_escape doc (Suc pos))
                   | Some n \<Rightarrow>
                       if n < 256 then scanstring doc b (drop 4 cs') (pos + 6) (char_of n # acc)
                       else Inl (OtherException ''code point outside the model'')))
             else
               (case unescape e of
                  None \<Rightarrow> Inl (JSONDecodeError invalid_escape doc pos)
                | Some ch \<Rightarrow> scanstring doc b cs' (pos + 2) (ch # acc)))
      else if (of_char c :: nat) \<le> 31 then Inl (JSONDecodeError ''Invalid control character at'' doc pos)
      else scanstring doc b cs (Suc pos) (c # acc))"

text \<open>Number literals: \<^verbatim>\<open>-?(0|[1-9][0-9]*)(\.[0-9]+)?([eE][-+]?[0-9]+)?\<close>. With a
  fraction or an exponent the value is a float, else an int.\<close>

fun digits_value :: "nat \<Rightarrow> string \<Rightarrow> nat" where
  "digits_value acc [] = acc"
| "digits_value acc (c # cs) = digits_value (10 * acc + (of_char c - 48)) cs"

definition match_sign :: "string \<Rightarrow> string \<times> string" where
  "match_sign cs = (case cs of c # r \<Rightarrow> if c = CHR ''-'' then ([c], r) else ([], cs) | [] \<Rightarrow> ([], cs))"

definition match_int :: "string \<Rightarrow> string option" where
  "match_int cs =
     (case cs of
        [] \<Rightarrow> None
      | c # r \<Rightarrow>
          if c = CHR ''0'' then Some [c]
          else if is_digit c then Some (c # takeWhile is_digit r)
          else None)"

definition match_frac :: "string \<Rightarrow> string" where
  "match_frac cs =
     (case cs of
        c # d # r \<Rightarrow> if c = CHR ''.'' \<and> is_digit d then c # takeWhile is_digit (d # r) else []
      | _ \<Rightarrow> [])"

definition match_exp :: "string \<Rightarrow> string" where
  "match_exp cs =
     (case cs of
        [] \<Rightarrow> []
      | e # r \<Rightarrow>
          if e = CHR ''e'' \<or> e = CHR ''E'' then
            (let sg = (case r of c # _ \<Rightarrow> if c = CHR ''-'' \<or> c = CHR ''+'' then [c] else [] | [] \<Rightarrow> []);
                 ds = takeWhile is_digit (drop (length sg) r)
             in if ds = [] then [] else e # sg @ ds)
          else [])"

definition match_number :: "string \<Rightarrow> (json \<times> nat) option" where
  "match_number cs =
     (case match_sign cs of
        (sg, cs1) \<Rightarrow>
          (case match_int cs1 of
             None \<Rightarrow> None
           | Some ds \<Rightarrow>
               (let frac = match_frac (drop (length ds) cs1);
                    ex = match_exp (drop (length ds + length frac) cs1);
                    lexeme = sg @ ds @ frac @ ex
                in if frac = [] \<and> ex = []
                   then Some (JInt (if sg = [] then int (digits_value 0 ds) else - int (digits_value 0 ds)),
                              length lexeme)
                   else Some (JFloat lexeme, length lexeme))))"

text \<open>The messages for a missing delimiter and a missing value.\<close>

definition expecting_delimiter :: "string \<Rightarrow> string" where
  "expecting_delimiter c = ''Expecting '' @ quoted c @ '' delimiter''"

definition expecting_value :: "string \<Rightarrow> nat \<Rightarrow> py_exception" where
  "expecting_value doc pos = JSONDecodeError ''Expecting value'' doc pos"

text \<open>The constants, then the numbers; the value and the number of characters read.\<close>

definition match_literal :: "string \<Rightarrow> (json \<times> nat) option" where
  "match_literal cs =
     (if startswith cs ''null'' then Some (JNull, 4)
      else if startswith cs ''true'' then Some (JBool True, 4)
      else if startswith cs ''false'' then Some (JBool False, 5)
      else if startswith cs ''NaN'' then Some (JFloat ''NaN'', 3)
      else if startswith cs ''Infinity'' then Some (JFloat ''Infinity'', 8)
      else if startswith cs ''-Infinity'' then Some (JFloat ''-Infinity'', 9)
      else match_number cs)"

text \<open>\<^verbatim>\<open>d[k] = v\<close>: a key already present keeps its place.\<close>

fun dict_set :: "dict \<Rightarrow> string \<Rightarrow> json \<Rightarrow> dict" where
  "dict_set [] k v = [(k, v)]"
| "dict_set ((k', v') # d) k v = (if k' = k then (k, v) # d else (k', v') # dict_set d k v)"

type_synonym scan_result = "py_exception + (json \<times> string \<times> nat)"

text \<open>After a member of an array or object: the closing bracket, a comma, or neither.\<close>

datatype separator = Closed string nat | More string nat | Missing nat

definition separator :: "char \<Rightarrow> string \<Rightarrow> nat \<Rightarrow> separator" where
  "separator close cs pos =
     (case skip_ws cs pos of
        (cs1, p1) \<Rightarrow>
          if startswith cs1 [close] then Closed (drop 1 cs1) (Suc p1)
          else if startswith cs1 '','' then
            (case skip_ws (drop 1 cs1) (Suc p1) of (cs2, p2) \<Rightarrow> More cs2 p2)
          else Missing p1)"

text \<open>A key of an object and its colon; the text that follows starts the value.\<close>

definition object_key :: "string \<Rightarrow> string \<Rightarrow> nat \<Rightarrow> py_exception + (string \<times> string \<times> nat)" where
  "object_key doc cs pos =
     (if \<not> startswith cs [CHR 0x22]
      then Inl (JSONDecodeError ''Expecting property name enclosed in double quotes'' doc pos)
      else
        (case scanstring doc pos (drop 1 cs) (Suc pos) [] of
           Inl e \<Rightarrow> Inl e
         | Inr (k, cs1, p1) \<Rightarrow>
             (case skip_ws cs1 p1 of
                (cs2, p2) \<Rightarrow>
                  if \<not> startswith cs2 '':''
                  then Inl (JSONDecodeError (expecting_delimiter '':'') doc p2)
                  else (case skip_ws (drop 1 cs2) (Suc p2) of (cs3, p3) \<Rightarrow> Inr (k, cs3, p3)))))"

text \<open>What the first character of a value announces.\<close>

datatype value_start = OpenString string | OpenObject string nat | OpenArray string nat
  | Scalar "(json \<times> string \<times> nat)" | NoValue

definition value_start :: "string \<Rightarrow> nat \<Rightarrow> value_start" where
  "value_start cs pos =
     (case cs of
        [] \<Rightarrow> NoValue
      | c # rest \<Rightarrow>
          if c = CHR 0x22 then OpenString rest
          else if c = CHR 0x7B then
            (case skip_ws rest (Suc pos) of
               (cs1, p1) \<Rightarrow>
                 if startswith cs1 [CHR 0x7D] then Scalar (JObject [], drop 1 cs1, Suc p1)
                 else OpenObject cs1 p1)
          else if c = CHR 0x5B then
            (case skip_ws rest (Suc pos) of
               (cs1, p1) \<Rightarrow>
                 if startswith cs1 [CHR 0x5D] then Scalar (JArray [], drop 1 cs1, Suc p1)
                 else OpenArray cs1 p1)
          else
            (case match_literal cs of
               None \<Rightarrow> NoValue
             | Some (v, k) \<Rightarrow> Scalar (v, drop k cs, pos + k)))"

text \<open>A string value: its opening quote is at \<open>pos\<close>.\<close>

definition scan_string :: "string \<Rightarrow> string \<Rightarrow> nat \<Rightarrow> scan_result" where
  "scan_string doc rest pos =
     (case scanstring doc pos rest (Suc pos) [] of
        Inl e \<Rightarrow> Inl e
      | Inr (s, cs', pos') \<Rightarrow> Inr (JString s, cs', pos'))"

text \<open>
  The scanner: a value, the members of an array after its bracket, the members of an
  object after its brace; each returns the value, the text after it and its position.
  The recursion is bounded by a counter, one unit for each call; a call with none left
  stops with an exception of the model's own.
\<close>

fun scan_once :: "nat \<Rightarrow> string \<Rightarrow> string \<Rightarrow> nat \<Rightarrow> scan_result"
  and parse_array :: "nat \<Rightarrow> string \<Rightarrow> string \<Rightarrow> nat \<Rightarrow> json list \<Rightarrow> scan_result"
  and parse_object :: "nat \<Rightarrow> string \<Rightarrow> string \<Rightarrow> nat \<Rightarrow> dict \<Rightarrow> scan_result" where
  "scan_once 0 doc cs pos = Inl (OtherException ''scanner counter exhausted'')"
| "scan_once (Suc n) doc cs pos =
     (case value_start cs pos of
        NoValue \<Rightarrow> Inl (expecting_value doc pos)
      | Scalar r \<Rightarrow> Inr r
      | OpenString rest \<Rightarrow> scan_string doc rest pos
      | OpenObject cs1 p1 \<Rightarrow> parse_object n doc cs1 p1 []
      | OpenArray cs1 p1 \<Rightarrow> parse_array n doc cs1 p1 [])"
| "parse_array 0 doc cs pos acc = Inl (OtherException ''scanner counter exhausted'')"
| "parse_array (Suc n) doc cs pos acc =
     (case scan_once n doc cs pos of
        Inl e \<Rightarrow> Inl e
      | Inr r \<Rightarrow>
          (case separator (CHR 0x5D) (fst (snd r)) (snd (snd r)) of
             Closed cs2 p2 \<Rightarrow> Inr (JArray (acc @ [fst r]), cs2, p2)
           | More cs2 p2 \<Rightarrow> parse_array n doc cs2 p2 (acc @ [fst r])
           | Missing p2 \<Rightarrow> Inl (JSONDecodeError (expecting_delimiter '','') doc p2)))"
| "parse_object 0 doc cs pos acc = Inl (OtherException ''scanner counter exhausted'')"
| "parse_object (Suc n) doc cs pos acc =
     (case object_key doc cs pos of
        Inl e \<Rightarrow> Inl e
      | Inr kr \<Rightarrow>
          (case scan_once n doc (fst (snd kr)) (snd (snd kr)) of
             Inl e \<Rightarrow> Inl e
           | Inr r \<Rightarrow>
               (case separator (CHR 0x7D) (fst (snd r)) (snd (snd r)) of
                  Closed cs2 p2 \<Rightarrow> Inr (JObject (dict_set acc (fst kr) (fst r)), cs2, p2)
                | More cs2 p2 \<Rightarrow> parse_object n doc cs2 p2 (dict_set acc (fst kr) (fst r))
                | Missing p2 \<Rightarrow> Inl (JSONDecodeError (expecting_delimiter '','') doc p2))))"

text \<open>
  \<^verbatim>\<open>json.loads\<close>: one value between optional whitespace. The counter is set to twice
  the length of the document and two more.
\<close>

definition json_loads :: json_decoder where
  "json_loads doc =
     (case skip_ws doc 0 of
        (cs, pos) \<Rightarrow>
          (case scan_once (Suc (Suc (length doc + length doc))) doc cs pos of
             Inl e \<Rightarrow> Inl e
           | Inr (v, cs1, p1) \<Rightarrow>
               (case skip_ws cs1 p1 of
                  (cs2, p2) \<Rightarrow> if cs2 = [] then Inr v else Inl (JSONDecodeError ''Extra data'' doc p2))))"

subsection \<open>The spec's wording, and example values\<close>

text \<open>The message for an unknown agent as the spec words it: the valid keys sorted and
  joined by commas.\<close>

definition unknown_agent_message_spec :: "string \<Rightarrow> string list \<Rightarrow> string" where
  "unknown_agent_message_spec a ks =
     ''Agent '' @ a @ '' not found in available agents: '' @ join '', '' (sort ks)"

text \<open>A service with two agents, listed as \<open>b\<close> then \<open>a\<close>, and a session that has
  loaded its metadata and selected \<open>a\<close>.\<close>

definition example_metadata :: service_metadata where
  "example_metadata =
     \<lparr>agents = [\<lparr>key = ''b'', description = ''second''\<rparr>, \<lparr>key = ''a'', description = ''first''\<rparr>],
      default_agent = ''a''\<rparr>"

definition example_client :: agent_client where
  "example_client =
     \<lparr>base_url = ''http://localhost'', auth_secret = None, timeout = None,
      info = Some example_metadata, agent = Some ''a''\<rparr>"

section \<open>Selecting an agent\<close>

text \<open>
  C10. \<^verbatim>\<open>update_agent(key, verify=False)\<close> succeeds for every key and every session:
  it raises nothing, its result does not depend on what the service would answer (no
  fetch), it sets the agent to the key and leaves the metadata as it was; so it also does
  when the key is not among the metadata's agents, and the selected agent is then not
  one of them.
\<close>

theorem update_agent_unverified:
  "update_agent resp s a False = (None, s\<lparr>agent := Some a\<rparr>)
   \<and> info (snd (update_agent resp s a False)) = info s
   \<and> agent (snd (update_agent resp s a False)) = Some a
   \<and> ''ghost'' \<notin> set (agent_keys example_metadata)
   \<and> fst (update_agent resp example_client ''ghost'' False) = None
   \<and> info (snd (update_agent resp example_client ''ghost'' False)) = Some example_metadata
   \<and> agent (snd (update_agent resp example_client ''ghost'' False)) = Some ''ghost''"
proof -
  have 1: "update_agent resp s a False = (None, s\<lparr>agent := Some a\<rparr>)" for s a
    by (simp add: update_agent_def)
  have 2: "''ghost'' \<notin> set (agent_keys example_metadata)"
    by (simp add: example_metadata_def agent_keys_def)
  have 3: "info example_client = Some example_metadata"
    by (simp add: example_client_def)
  show ?thesis
    using 2 3 by (simp add: 1)
qed

text \<open>
  C8. Selecting again, with verification, the agent that is already selected and is
  listed in the loaded metadata raises nothing and leaves the session (the selected
  agent and the metadata) as it was.
\<close>

theorem update_agent_reselect:
  assumes "info s = Some md" and "agent s = Some a" and "a \<in> set (agent_keys md)"
  shows "update_agent resp s a True = (None, s)"
  using assms by (simp add: update_agent_def)

theorem update_agent_reselect_witness:
  "info example_client = Some example_metadata
   \<and> agent example_client = Some ''a''
   \<and> ''a'' \<in> set (agent_keys example_metadata)
   \<and> update_agent (InfoFailed (ConnectError ''refused'')) example_client ''a'' True
       = (None, example_client)"
proof -
  have i: "info example_client = Some example_metadata"
    by (simp add: example_client_def)
  have a: "agent example_client = Some ''a''"
    by (simp add: example_client_def)
  have k: "''a'' \<in> set (agent_keys example_metadata)"
    by (simp add: example_metadata_def agent_keys_def)
  show ?thesis
    using i a k update_agent_reselect [OF i a k] by simp
qed

text \<open>
  C4, as amended. With verification and loaded metadata, a key that is not listed raises
  an \<^verbatim>\<open>AgentClientError\<close> whose message names the key and lists the valid keys joined
  by commas in the order the metadata lists them (they are not sorted); the session is
  left as it was.
\<close>

theorem update_agent_unknown:
  assumes "info s = Some md" and "a \<notin> set (agent_keys md)"
  shows "update_agent resp s a True =
    (Some (AgentClientError
       (''Agent '' @ a @ '' not found in available agents: '' @ join '', '' (agent_keys md))), s)"
  using assms by (simp add: update_agent_def unknown_agent_message_def)

theorem update_agent_unknown_witness:
  "info example_client = Some example_metadata
   \<and> ''ghost'' \<notin> set (agent_keys example_metadata)
   \<and> update_agent (InfoFailed (ConnectError ''refused'')) example_client ''ghost'' True
       = (Some (AgentClientError ''Agent ghost not found in available agents: b, a''),
          example_client)"
proof -
  have i: "info example_client = Some example_metadata"
    by (simp add: example_client_def)
  have k: "''ghost'' \<notin> set (agent_keys example_metadata)"
    by (simp add: example_metadata_def agent_keys_def)
  have j: "join '', '' (agent_keys example_metadata) = ''b, a''"
    by (simp add: example_metadata_def agent_keys_def)
  show ?thesis
    using i k j update_agent_unknown [OF i k] by simp
qed

lemma sort_keys: "sort (agent_keys example_metadata) = [''a'', ''b'']"
  by (simp add: example_metadata_def agent_keys_def)

text \<open>
  C4 as stated fails: with the agents \<open>{a, b}\<close> listed as \<open>b, a\<close>, the message for the
  key \<open>ghost\<close> ends in \<open>b, a\<close>; it is not the spec's message with the keys sorted, and
  it does not contain \<open>a, b\<close>.
\<close>

theorem update_agent_unknown_sorted_counterexample:
  "set (agent_keys example_metadata) = {''a'', ''b''}
   \<and> fst (update_agent (InfoFailed (ConnectError ''refused'')) example_client ''ghost'' True)
       = Some (AgentClientError ''Agent ghost not found in available agents: b, a'')
   \<and> unknown_agent_message_spec ''ghost'' (agent_keys example_metadata)
       = ''Agent ghost not found in available agents: a, b''
   \<and> \<not> sublist ''a, b'' ''Agent ghost not found in available agents: b, a''"
proof -
  have 1: "set (agent_keys example_metadata) = {''a'', ''b''}"
    by (auto simp add: example_metadata_def agent_keys_def)
  have 2: "fst (update_agent (InfoFailed (ConnectError ''refused'')) example_client ''ghost'' True)
       = Some (AgentClientError ''Agent ghost not found in available agents: b, a'')"
    by (simp add: update_agent_def example_client_def example_metadata_def agent_keys_def
        unknown_agent_message_def)
  have 3: "unknown_agent_message_spec ''ghost'' (agent_keys example_metadata)
       = ''Agent ghost not found in available agents: a, b''"
    by (simp add: unknown_agent_message_spec_def sort_keys)
  have 4: "\<not> sublist ''a, b'' ''Agent ghost not found in available agents: b, a''"
    by code_simp
  show ?thesis using 1 2 3 4 by blast
qed

section \<open>The line decoder\<close>

lemma strip_Nil: "strip [] = []"
  by (simp add: strip_def)

lemma strip_done: "strip ''[DONE]'' = ''[DONE]''"
  by (simp add: strip_def isspace_def)

lemma parse_stream_line_returns: "\<exists>r. parse_stream_line loads line = Inr r"
  by (simp add: parse_stream_line_def split: sum.splits)

lemma parse_stream_line_None_iff:
  "(parse_stream_line loads line = Inr None) = (line = [] \<or> line = ''[DONE]'')"
  by (auto simp add: parse_stream_line_def parse_stream_line_try_def decode_payload_def
      split: sum.splits json.splits if_splits)

lemma parse_stream_line_done: "parse_stream_line loads ''[DONE]'' = Inr None"
  by (simp add: parse_stream_line_None_iff)

text \<open>
  C5. \<^verbatim>\<open>_parse_stream_line\<close> returns on every line, whatever the decoder does: no
  exception leaves it. An exception of the \<^verbatim>\<open>try\<close> block other than a
  \<^verbatim>\<open>JSONDecodeError\<close> becomes the dict of type \<open>error\<close> with the content
  \<open>Unexpected error: \<close> and the exception's text; such are an exception of the decoder
  itself and the \<^verbatim>\<open>AttributeError\<close> of inspecting a payload that is not a dict.
\<close>

theorem parse_stream_line_total:
  "(\<exists>r. parse_stream_line loads line = Inr r)
   \<and> (\<forall>e. parse_stream_line_try loads line = Inl e \<and> \<not> is_JSONDecodeError e \<longrightarrow>
          parse_stream_line loads line
            = Inr (Some [(''type'', JString ''error''),
                         (''content'', JString (''Unexpected error: '' @ exc_str e))]))
   \<and> (\<forall>e. line \<noteq> [] \<and> line \<noteq> ''[DONE]'' \<and> loads (stream_payload line) = Inl e
            \<and> \<not> is_JSONDecodeError e \<longrightarrow>
          parse_stream_line loads line
            = Inr (Some [(''type'', JString ''error''),
                         (''content'', JString (''Unexpected error: '' @ exc_str e))]))
   \<and> (\<forall>v. line \<noteq> [] \<and> line \<noteq> ''[DONE]'' \<and> loads (stream_payload line) = Inr v
            \<and> \<not> is_dict v \<longrightarrow>
          parse_stream_line_try loads line
            = Inl (AttributeError (no_attribute (type_name v) ''get''))
          \<and> parse_stream_line loads line
            = Inr (Some [(''type'', JString ''error''),
                         (''content'', JString (''Unexpected error: ''
                            @ no_attribute (type_name v) ''get''))]))"
proof -
  have 1: "\<exists>r. parse_stream_line loads line = Inr r"
    by (rule parse_stream_line_returns)
  have 2: "\<forall>e. parse_stream_line_try loads line = Inl e \<and> \<not> is_JSONDecodeError e \<longrightarrow>
          parse_stream_line loads line
            = Inr (Some [(''type'', JString ''error''),
                         (''content'', JString (''Unexpected error: '' @ exc_str e))])"
    by (simp add: parse_stream_line_def error_event_def)
  have 3: "\<forall>e. line \<noteq> [] \<and> line \<noteq> ''[DONE]'' \<and> loads (stream_payload line) = Inl e
            \<and> \<not> is_JSONDecodeError e \<longrightarrow>
          parse_stream_line loads line
            = Inr (Some [(''type'', JString ''error''),
                         (''content'', JString (''Unexpected error: '' @ exc_str e))])"
    by (simp add: parse_stream_line_def parse_stream_line_try_def decode_payload_def
        error_event_def)
  have 4: "\<forall>v. line \<noteq> [] \<and> line \<noteq> ''[DONE]'' \<and> loads (stream_payload line) = Inr v
            \<and> \<not> is_dict v \<longrightarrow>
          parse_stream_line_try loads line
            = Inl (AttributeError (no_attribute (type_name v) ''get''))
          \<and> parse_stream_line loads line
            = Inr (Some [(''type'', JString ''error''),
                         (''content'', JString (''Unexpected error: ''
                            @ no_attribute (type_name v) ''get''))])"
    by (auto simp add: parse_stream_line_def parse_stream_line_try_def decode_payload_def
        error_event_def split: json.splits)
  show ?thesis
    using 1 2 3 4 by blast
qed

lemma try_array_line:
  "parse_stream_line_try json_loads ''data: [1]''
     = Inl (AttributeError (no_attribute ''list'' ''get''))"
  by code_simp

theorem parse_stream_line_total_witness:
  "parse_stream_line_try json_loads ''data: [1]''
     = Inl (AttributeError (no_attribute ''list'' ''get''))
   \<and> \<not> is_JSONDecodeError (AttributeError (no_attribute ''list'' ''get''))
   \<and> parse_stream_line json_loads ''data: [1]''
     = Inr (Some [(''type'', JString ''error''),
                  (''content'', JString (''Unexpected error: '' @ quoted ''list''
                     @ '' object has no attribute '' @ quoted ''get''))])"
  using parse_stream_line_total [of json_loads "''data: [1]''"] try_array_line
  by (simp add: no_attribute_def)

text \<open>
  C9. When the payload of a line decodes to a JSON value that is not an object, the
  value is not passed through: reading \<^verbatim>\<open>parsed.get\<close> raises, the catch-all handler
  takes it, and the line decodes to the dict of type \<open>error\<close> with the content
  \<open>Unexpected error: '<type>' object has no attribute 'get'\<close>.
\<close>

theorem non_object_payload:
  assumes "line \<noteq> []" and "line \<noteq> ''[DONE]''"
    and "loads (stream_payload line) = Inr v" and "\<not> is_dict v"
  shows "parse_stream_line loads line
    = Inr (Some [(''type'', JString ''error''),
                 (''content'', JString (''Unexpected error: '' @ quoted (type_name v)
                    @ '' object has no attribute '' @ quoted ''get''))])"
  using assms
  by (auto simp add: parse_stream_line_def parse_stream_line_try_def decode_payload_def
      no_attribute_def error_event_def split: json.splits)

lemma loads_number: "json_loads (stream_payload ''42'') = Inr (JInt 42)"
  by code_simp

theorem non_object_payload_witness:
  "''42'' \<noteq> [] \<and> ''42'' \<noteq> ''[DONE]''
   \<and> json_loads (stream_payload ''42'') = Inr (JInt 42)
   \<and> \<not> is_dict (JInt 42)
   \<and> parse_stream_line json_loads ''42''
     = Inr (Some [(''type'', JString ''error''),
                  (''content'', JString (''Unexpected error: '' @ quoted ''int''
                     @ '' object has no attribute '' @ quoted ''get''))])"
  using non_object_payload [where loads = json_loads and line = "''42''" and v = "JInt 42"]
    loads_number
  by simp

text \<open>
  C7, as amended. A line that begins with \<open>data: \<close> has exactly these six characters
  removed and the rest decoded; any other line (not empty, not \<open>[DONE]\<close>) is decoded
  whole, as it was received: the decoder does not trim it.
\<close>

theorem payload_of_line:
  "(startswith line ''data: '' \<longrightarrow>
      stream_payload line = drop 6 line \<and> line = ''data: '' @ stream_payload line
      \<and> parse_stream_line_try loads line = decode_payload loads (drop 6 line))
   \<and> (\<not> startswith line ''data: '' \<and> line \<noteq> [] \<and> line \<noteq> ''[DONE]'' \<longrightarrow>
      stream_payload line = line
      \<and> parse_stream_line_try loads line = decode_payload loads line)"
proof -
  have 1: "startswith line ''data: '' \<longrightarrow>
      stream_payload line = drop 6 line \<and> line = ''data: '' @ stream_payload line
      \<and> parse_stream_line_try loads line = decode_payload loads (drop 6 line)"
  proof
    assume p: "startswith line ''data: ''"
    then have q: "take 6 line = ''data: ''"
      by (simp add: startswith_def eval_nat_numeral)
    have "take 6 line @ drop 6 line = line"
      by (rule append_take_drop_id)
    with q have l: "line = ''data: '' @ drop 6 line"
      by simp
    then have "line \<noteq> []" and "line \<noteq> ''[DONE]''"
      by auto
    with p l show "stream_payload line = drop 6 line \<and> line = ''data: '' @ stream_payload line
      \<and> parse_stream_line_try loads line = decode_payload loads (drop 6 line)"
      by (simp add: stream_payload_def parse_stream_line_try_def)
  qed
  have 2: "\<not> startswith line ''data: '' \<and> line \<noteq> [] \<and> line \<noteq> ''[DONE]'' \<longrightarrow>
      stream_payload line = line
      \<and> parse_stream_line_try loads line = decode_payload loads line"
    by (simp add: stream_payload_def parse_stream_line_try_def)
  show ?thesis
    using 1 2 by blast
qed

theorem payload_of_line_witness:
  \<open>startswith ''data: {"a":1}'' ''data: ''
   \<and> stream_payload ''data: {"a":1}'' = ''{"a":1}''
   \<and> parse_stream_line_try json_loads ''data: {"a":1}'' = decode_payload json_loads ''{"a":1}''
   \<and> \<not> startswith '' {"a":1}'' ''data: ''
   \<and> stream_payload '' {"a":1}'' = '' {"a":1}''
   \<and> parse_stream_line_try json_loads '' {"a":1}'' = decode_payload json_loads '' {"a":1}''\<close>
proof -
  have p: \<open>startswith ''data: {"a":1}'' ''data: ''\<close>
    by (simp add: startswith_def)
  have n: \<open>\<not> startswith '' {"a":1}'' ''data: ''\<close>
    by (simp add: startswith_def)
  have d: \<open>drop 6 ''data: {"a":1}'' = ''{"a":1}''\<close>
    by simp
  have e: \<open>'' {"a":1}'' \<noteq> [] \<and> '' {"a":1}'' \<noteq> ''[DONE]''\<close>
    by simp
  show ?thesis
    using p n e
      payload_of_line [where loads = json_loads and line = \<open>''data: {"a":1}''\<close>, unfolded d]
      payload_of_line [where loads = json_loads and line = \<open>'' {"a":1}''\<close>]
    by blast
qed

text \<open>
  C7 as stated fails where it takes the trimmed line for the payload. The line \<open> x\<close>
  is decoded with its leading space, so the position in the error differs from the one
  for \<open>x\<close>; a line of a no-break space and \<open>{}\<close> is rejected by the JSON decoder, while
  its trimmed text \<open>{}\<close> decodes to an empty dict.
\<close>

theorem payload_not_trimmed_counterexample:
  "\<not> startswith '' x'' ''data: ''
   \<and> strip '' x'' = ''x''
   \<and> stream_payload '' x'' = '' x''
   \<and> parse_stream_line json_loads '' x''
     = Inr (Some [(''type'', JString ''error''), (''content'', JString
          ''Failed to parse response: Expecting value: line 1 column 2 (char 1)'')])
   \<and> parse_stream_line json_loads (strip '' x'')
     = Inr (Some [(''type'', JString ''error''), (''content'', JString
          ''Failed to parse response: Expecting value: line 1 column 1 (char 0)'')])
   \<and> strip (CHR 0xA0 # ''{}'') = ''{}''
   \<and> parse_stream_line json_loads (CHR 0xA0 # ''{}'')
     = Inr (Some [(''type'', JString ''error''), (''content'', JString
          ''Failed to parse response: Expecting value: line 1 column 1 (char 0)'')])
   \<and> parse_stream_line json_loads (strip (CHR 0xA0 # ''{}'')) = Inr (Some [])"
  by code_simp

section \<open>The streaming loops\<close>

lemma error_event_type:
  "subscript [(''type'', JString ''error''), (''content'', c)] ''type'' = Inr (JString ''error'')"
  by (simp add: subscript_def dict_get_def)

lemma stream_lines_event:
  assumes "strip line \<noteq> []" and "parse_stream_line loads line = Inr (Some ev)"
  shows "stream_lines loads (line # ls) = (ev # fst (stream_lines loads ls), snd (stream_lines loads ls))"
  using assms by (simp split: prod.splits)

lemma astream_lines_error_event:
  assumes "strip line \<noteq> []"
    and "parse_stream_line loads line = Inr (Some [(''type'', JString ''error''), (''content'', c)])"
  shows "astream_lines loads (line # ls)
    = ([(''type'', JString ''error''), (''content'', c)] # fst (astream_lines loads ls),
       snd (astream_lines loads ls))"
  using assms by (simp add: error_event_type split: prod.splits)

lemma stream_lines_done: "stream_lines loads (''[DONE]'' # ls) = ([], Broke)"
  by (simp add: strip_done parse_stream_line_done)

lemma astream_lines_done: "astream_lines loads (''[DONE]'' # ls) = astream_lines loads ls"
  by (simp add: strip_done parse_stream_line_done)

text \<open>The end-to-end example of the spec: two events, then the end.\<close>

lemma stream_example:
  \<open>stream json_loads example_client
     (StreamBody [''data: {"type":"token","content":"a"}'', '''',
                  ''data: {"type":"token","content":"b"}'', ''[DONE]''] None)
   = ([[(''type'', JString ''token''), (''content'', JString ''a'')],
       [(''type'', JString ''token''), (''content'', JString ''b'')]], None)\<close>
  by code_simp

text \<open>
  C1, as amended. A failure of the HTTP layer before the first line (a connection
  failure or an error status) is raised by the synchronous \<^verbatim>\<open>stream\<close>, once an agent
  is selected, as an \<^verbatim>\<open>AgentClientError\<close> with no event yielded; the asynchronous
  \<^verbatim>\<open>astream\<close>, which does not read the agent, does not raise it: it yields one event,
  the dict of type \<open>error\<close> with the content \<open>Connection error: \<close> and the failure's
  text, and ends.
\<close>

theorem stream_http_failure:
  assumes "is_HTTPError e"
  shows "astream loads s (StreamFailed e)
        = ([[(''type'', JString ''error''),
             (''content'', JString (''Connection error: '' @ exc_str e))]], None)
    \<and> (\<not> no_agent (agent s) \<longrightarrow>
         stream loads s (StreamFailed e)
           = ([], Some (AgentClientError (''Error: '' @ exc_str e))))"
  using assms
  by (simp add: stream_def astream_def wrap_http_error_def astream_error_event_def
      error_event_def)

theorem stream_http_failure_witness:
  "is_HTTPError (ConnectError ''All connection attempts failed'')
   \<and> \<not> no_agent (agent example_client)
   \<and> stream json_loads example_client (StreamFailed (ConnectError ''All connection attempts failed''))
       = ([], Some (AgentClientError ''Error: All connection attempts failed''))
   \<and> astream json_loads example_client (StreamFailed (ConnectError ''All connection attempts failed''))
       = ([[(''type'', JString ''error''),
            (''content'', JString ''Connection error: All connection attempts failed'')]], None)
   \<and> no_agent (agent (example_client\<lparr>agent := None\<rparr>))
   \<and> astream json_loads (example_client\<lparr>agent := None\<rparr>)
         (StreamFailed (ConnectError ''All connection attempts failed''))
       = ([[(''type'', JString ''error''),
            (''content'', JString ''Connection error: All connection attempts failed'')]], None)"
proof -
  have h: "is_HTTPError (ConnectError ''All connection attempts failed'')"
    by simp
  have a: "\<not> no_agent (agent example_client)"
    by (simp add: example_client_def no_agent_def)
  have n: "no_agent (agent (example_client\<lparr>agent := None\<rparr>))"
    by (simp add: no_agent_def)
  show ?thesis
    using h a n
      stream_http_failure [OF h, of json_loads example_client]
      stream_http_failure [OF h, of json_loads "example_client\<lparr>agent := None\<rparr>"]
    by simp
qed

text \<open>
  C1 as stated fails for the asynchronous variant: a refused connection and an error
  status each come out of \<^verbatim>\<open>astream\<close> as an event of the sequence, and nothing is
  raised.
\<close>

theorem astream_http_failure_counterexample:
  "astream json_loads example_client (StreamFailed (ConnectError ''All connection attempts failed''))
     = ([[(''type'', JString ''error''),
          (''content'', JString ''Connection error: All connection attempts failed'')]], None)
   \<and> astream json_loads example_client (StreamFailed (HTTPError ''Server error 500''))
     = ([[(''type'', JString ''error''),
          (''content'', JString ''Connection error: Server error 500'')]], None)"
  by (simp add: astream_def astream_error_event_def error_event_def)

text \<open>
  C2, as amended. When the decoder rejects the payload of a line with a
  \<^verbatim>\<open>JSONDecodeError\<close>, the line decodes to the dict of type \<open>error\<close> whose content is
  \<open>Failed to parse response: \<close> followed by the decoder's message (what was expected,
  line, column and position; the raw text is only logged), and both loops yield that
  event and go on with the lines that follow.
\<close>

theorem parse_stream_line_decode_failure:
  assumes "strip line \<noteq> []" and "line \<noteq> ''[DONE]''"
    and "loads (stream_payload line) = Inl (JSONDecodeError msg doc pos)"
  shows "parse_stream_line loads line
      = Inr (Some [(''type'', JString ''error''),
                   (''content'', JString (''Failed to parse response: ''
                      @ exc_str (JSONDecodeError msg doc pos)))])
    \<and> stream_lines loads (line # ls)
      = ([(''type'', JString ''error''),
          (''content'', JString (''Failed to parse response: ''
             @ exc_str (JSONDecodeError msg doc pos)))] # fst (stream_lines loads ls),
         snd (stream_lines loads ls))
    \<and> astream_lines loads (line # ls)
      = ([(''type'', JString ''error''),
          (''content'', JString (''Failed to parse response: ''
             @ exc_str (JSONDecodeError msg doc pos)))] # fst (astream_lines loads ls),
         snd (astream_lines loads ls))"
proof -
  from assms(1) have "line \<noteq> []"
    by (auto simp add: strip_Nil)
  with assms(2,3) have p: "parse_stream_line loads line
      = Inr (Some [(''type'', JString ''error''),
                   (''content'', JString (''Failed to parse response: ''
                      @ exc_str (JSONDecodeError msg doc pos)))])"
    by (simp add: parse_stream_line_def parse_stream_line_try_def decode_payload_def
        error_event_def)
  show ?thesis
    using p stream_lines_event [OF assms(1) p] astream_lines_error_event [OF assms(1) p]
    by simp
qed

lemma str_not_json:
  "exc_str (JSONDecodeError ''Expecting value'' ''not-json'' 0)
     = ''Expecting value: line 1 column 1 (char 0)''"
  by code_simp

theorem parse_stream_line_decode_failure_witness:
  "strip ''data: not-json'' \<noteq> []
   \<and> ''data: not-json'' \<noteq> ''[DONE]''
   \<and> json_loads (stream_payload ''data: not-json'')
       = Inl (JSONDecodeError ''Expecting value'' ''not-json'' 0)
   \<and> parse_stream_line json_loads ''data: not-json''
       = Inr (Some [(''type'', JString ''error''), (''content'', JString
            ''Failed to parse response: Expecting value: line 1 column 1 (char 0)'')])
   \<and> stream_lines json_loads [''data: not-json'', ''[DONE]'']
       = ([[(''type'', JString ''error''), (''content'', JString
            ''Failed to parse response: Expecting value: line 1 column 1 (char 0)'')]], Broke)
   \<and> astream_lines json_loads [''data: not-json'']
       = ([[(''type'', JString ''error''), (''content'', JString
            ''Failed to parse response: Expecting value: line 1 column 1 (char 0)'')]], None)"
proof -
  have s: "strip ''data: not-json'' \<noteq> []"
    by code_simp
  have d: "''data: not-json'' \<noteq> ''[DONE]''"
    by simp
  have l: "json_loads (stream_payload ''data: not-json'')
       = Inl (JSONDecodeError ''Expecting value'' ''not-json'' 0)"
    by code_simp
  have r: "stream_lines json_loads [''[DONE]''] = ([], Broke)"
    by code_simp
  note t = parse_stream_line_decode_failure [where loads = json_loads
      and line = "''data: not-json''", OF s d l, unfolded str_not_json]
  note t1 = t [of "[''[DONE]'']", unfolded r fst_conv snd_conv append.simps]
  note t2 = t [of "[]", unfolded astream_lines.simps(1) fst_conv snd_conv append.simps]
  from t1 have p: "parse_stream_line json_loads ''data: not-json''
       = Inr (Some [(''type'', JString ''error''), (''content'', JString
            ''Failed to parse response: Expecting value: line 1 column 1 (char 0)'')])"
    by (rule conjunct1)
  from t1 have q: "stream_lines json_loads [''data: not-json'', ''[DONE]'']
       = ([[(''type'', JString ''error''), (''content'', JString
            ''Failed to parse response: Expecting value: line 1 column 1 (char 0)'')]], Broke)"
    by blast
  from t2 have u: "astream_lines json_loads [''data: not-json'']
       = ([[(''type'', JString ''error''), (''content'', JString
            ''Failed to parse response: Expecting value: line 1 column 1 (char 0)'')]], None)"
    by blast
  show ?thesis
    using s d l p q u by blast
qed

text \<open>
  C2 as stated fails: the content of the error event for the line \<open>data: not-json\<close>
  contains neither the payload nor the line.
\<close>

theorem decode_failure_content_counterexample:
  "parse_stream_line json_loads ''data: not-json''
     = Inr (Some [(''type'', JString ''error''), (''content'', JString
          ''Failed to parse response: Expecting value: line 1 column 1 (char 0)'')])
   \<and> \<not> sublist ''not-json''
        ''Failed to parse response: Expecting value: line 1 column 1 (char 0)''
   \<and> \<not> sublist ''data: not-json''
        ''Failed to parse response: Expecting value: line 1 column 1 (char 0)''"
  by code_simp

text \<open>
  C3, as amended. A line that is empty or only whitespace is passed over by both loops,
  which test \<^verbatim>\<open>line.strip()\<close> before they call the decoder, and the stream goes on.
  The decoder itself does not trim: it returns \<open>None\<close> for the empty line, and an event
  for any other line of whitespace.
\<close>

theorem blank_line_skipped:
  assumes "strip line = []"
  shows "stream_lines loads (line # ls) = stream_lines loads ls
    \<and> astream_lines loads (line # ls) = astream_lines loads ls
    \<and> parse_stream_line loads [] = Inr None
    \<and> (line = [] \<or> (\<exists>ev. parse_stream_line loads line = Inr (Some ev)))"
proof -
  have "line \<noteq> ''[DONE]''"
    using assms strip_done by auto
  then have "line = [] \<or> parse_stream_line loads line \<noteq> Inr None"
    by (simp add: parse_stream_line_None_iff)
  moreover obtain r where "parse_stream_line loads line = Inr r"
    using parse_stream_line_returns by blast
  ultimately have "line = [] \<or> (\<exists>ev. parse_stream_line loads line = Inr (Some ev))"
    by (cases r) auto
  moreover have "parse_stream_line loads [] = Inr None"
    by (simp add: parse_stream_line_None_iff)
  ultimately show ?thesis
    using assms by simp
qed

lemma strip_blank3: "strip ''   '' = []"
  by code_simp

theorem blank_line_skipped_witness:
  "strip ''   '' = []
   \<and> stream_lines json_loads [''   '', ''[DONE]''] = stream_lines json_loads [''[DONE]'']
   \<and> astream_lines json_loads [''   '', ''[DONE]''] = astream_lines json_loads [''[DONE]'']
   \<and> parse_stream_line json_loads [] = Inr None
   \<and> (\<exists>ev. parse_stream_line json_loads ''   '' = Inr (Some ev))"
  using blank_line_skipped [OF strip_blank3, of json_loads "[''[DONE]'']"] strip_blank3
  by (simp del: stream_lines.simps astream_lines.simps)

text \<open>
  C3 as stated fails: the decoder applied to the line of three spaces yields an event,
  the error of decoding it.
\<close>

theorem whitespace_line_decoded_counterexample:
  "parse_stream_line json_loads ''   ''
     = Inr (Some [(''type'', JString ''error''), (''content'', JString
          ''Failed to parse response: Expecting value: line 1 column 4 (char 3)'')])"
  by code_simp

text \<open>
  C6, as amended. The decoder returns \<open>None\<close> for \<open>[DONE]\<close>, as it does for the empty
  line: there is no second component that tells them apart. The loop of the synchronous
  \<^verbatim>\<open>stream\<close> stops at a \<open>None\<close>, so at \<open>[DONE]\<close> it yields nothing more and reads no
  further line; and since that loop passes over blank lines before decoding, \<open>[DONE]\<close> is
  the only line it decodes to \<open>None\<close>.
\<close>

theorem done_token_stops_stream:
  "parse_stream_line loads ''[DONE]'' = Inr None
   \<and> parse_stream_line loads [] = Inr None
   \<and> stream_lines loads (''[DONE]'' # ls) = ([], Broke)
   \<and> (\<not> no_agent (agent s) \<longrightarrow> stream loads s (StreamBody (''[DONE]'' # ls) t) = ([], None))
   \<and> (strip line \<noteq> [] \<longrightarrow> (parse_stream_line loads line = Inr None) = (line = ''[DONE]''))"
proof -
  have 1: "parse_stream_line loads ''[DONE]'' = Inr None"
    by (simp add: parse_stream_line_None_iff)
  have 2: "parse_stream_line loads [] = Inr None"
    by (simp add: parse_stream_line_None_iff)
  have 3: "stream_lines loads (''[DONE]'' # ls) = ([], Broke)"
    by (rule stream_lines_done)
  have 4: "\<not> no_agent (agent s) \<longrightarrow> stream loads s (StreamBody (''[DONE]'' # ls) t) = ([], None)"
    by (simp add: stream_def stream_lines_done del: stream_lines.simps)
  have 5: "strip line \<noteq> [] \<longrightarrow> (parse_stream_line loads line = Inr None) = (line = ''[DONE]'')"
    by (auto simp add: parse_stream_line_None_iff strip_Nil)
  show ?thesis
    using 1 2 3 4 5 by blast
qed

theorem done_token_stops_stream_witness:
  \<open>\<not> no_agent (agent example_client)
   \<and> strip ''{"type":"token","content":"late"}'' \<noteq> []
   \<and> stream json_loads example_client
        (StreamBody [''[DONE]'', ''{"type":"token","content":"late"}''] (Some (HTTPError ''closed''))) = ([], None)
   \<and> parse_stream_line json_loads ''{"type":"token","content":"late"}'' \<noteq> Inr None\<close>
proof -
  have a: "\<not> no_agent (agent example_client)"
    by (simp add: example_client_def no_agent_def)
  have s: \<open>strip ''{"type":"token","content":"late"}'' \<noteq> []\<close>
    by code_simp
  have n: \<open>''{"type":"token","content":"late"}'' \<noteq> ''[DONE]''\<close>
    by simp
  note t = done_token_stops_stream [where loads = json_loads and s = example_client
      and ls = \<open>[''{"type":"token","content":"late"}'']\<close> and t = "Some (HTTPError ''closed'')"
      and line = \<open>''{"type":"token","content":"late"}''\<close>]
  show ?thesis
    using a s n t by blast
qed

text \<open>
  C6 as stated fails: the decoder's result for \<open>[DONE]\<close> is the result for the empty
  line, with nothing to mark it terminal; and the loop of \<^verbatim>\<open>astream\<close>, the decoder's
  other caller, reads on after \<open>[DONE]\<close> and yields the event of the next line.
\<close>

theorem done_token_no_flag_counterexample:
  \<open>parse_stream_line json_loads ''[DONE]'' = Inr None
   \<and> parse_stream_line json_loads [] = Inr None
   \<and> parse_stream_line json_loads ''[DONE]'' = parse_stream_line json_loads []
   \<and> astream_lines json_loads [''[DONE]'', ''{"type":"token","content":"late"}'']
       = ([[(''type'', JString ''token''), (''content'', JString ''late'')]], None)\<close>
  by code_simp

end
